theory Spec2Isabelle
  imports Main
begin

unbundle bit_operations_syntax

section \<open>LLDB formatters for SmolStr and SmallVec (rust\_bonus\_types.py)\<close>

subsection \<open>The host debugger's objects\<close>

text \<open>
  The providers of \<^verbatim>\<open>rust_bonus_types.py\<close> see the inspected program through LLDB's
  scripting objects. An \<^verbatim>\<open>SBType\<close> answers \<^verbatim>\<open>IsValid()\<close> and \<^verbatim>\<open>GetByteSize()\<close>;
  the providers also build \<^verbatim>\<open>char[n]\<close> with \<^verbatim>\<open>GetBasicType(eBasicTypeChar)\<close> and
  \<^verbatim>\<open>GetArrayType(n)\<close>. The truth value of an \<^verbatim>\<open>SBType\<close> object is its validity.
\<close>

datatype SBType =
    DebugType bool nat
  | BasicTypeChar
  | ArrayType SBType nat

fun Type_IsValid :: "SBType \<Rightarrow> bool" where
  "Type_IsValid (DebugType ok sz) = ok"
| "Type_IsValid BasicTypeChar = True"
| "Type_IsValid (ArrayType t n) = Type_IsValid t"

fun GetByteSize :: "SBType \<Rightarrow> nat" where
  "GetByteSize (DebugType ok sz) = (if ok then sz else 0)"
| "GetByteSize BasicTypeChar = 1"
| "GetByteSize (ArrayType t n) = n * GetByteSize t"

text \<open>
  An \<^verbatim>\<open>SBValue\<close> is a node of the raw-layout value tree: its validity, the unsigned
  number it holds, its load address, the first template argument of its type and its
  named members in declaration order. Numbers are Python integers, which do not wrap;
  those read from the host are unsigned.
\<close>

datatype SBValue =
  SBValue (IsValid: bool) (GetValueAsUnsigned: nat) (GetLoadAddress: nat)
    (GetTemplateArgumentType0: SBType) (members: "(string \<times> SBValue) list")

definition invalid_SBValue :: SBValue where
  "invalid_SBValue = SBValue False 0 0 (DebugType False 0) []"

text \<open>A member that does not exist, and any member of an invalid value, is an invalid value.\<close>

definition GetChildMemberWithName :: "SBValue \<Rightarrow> string \<Rightarrow> SBValue" where
  "GetChildMemberWithName v name =
     (if IsValid v then
        (case map_of (members v) name of Some c \<Rightarrow> c | None \<Rightarrow> invalid_SBValue)
      else invalid_SBValue)"

definition GetChildAtIndex :: "SBValue \<Rightarrow> nat \<Rightarrow> SBValue" where
  "GetChildAtIndex v i =
     (if IsValid v \<and> i < length (members v) then snd (members v ! i) else invalid_SBValue)"

text \<open>The tree already is the raw layout, so the non-synthetic view of a value is the value.\<close>

definition GetNonSyntheticValue :: "SBValue \<Rightarrow> SBValue" where
  "GetNonSyntheticValue v = v"

datatype exn = Exception

text \<open>
  What the host does besides navigation. \<^verbatim>\<open>ReadMemory\<close> reports failure through its
  error flag (\<open>None\<close>); decoding bytes and creating values may raise (\<open>Inl\<close>), which
  the providers catch.
\<close>

record host =
  PY3 :: bool
  ReadMemory :: "nat \<Rightarrow> nat \<Rightarrow> string option"
  decode :: "string \<Rightarrow> exn + string"
  CreateValueFromExpression :: "string \<Rightarrow> string \<Rightarrow> exn + SBValue"
  CreateValueFromAddress :: "string \<Rightarrow> nat \<Rightarrow> SBType \<Rightarrow> exn + SBValue"

subsection \<open>Python's string formatting\<close>

definition digit_char :: "nat \<Rightarrow> char" where
  "digit_char n = ''0123456789abcdef'' ! n"

fun format_dec :: "nat \<Rightarrow> string" where
  "format_dec n =
     (if n < 10 then [digit_char n] else format_dec (n div 10) @ [digit_char (n mod 10)])"

fun format_hex :: "nat \<Rightarrow> string" where
  "format_hex n =
     (if n < 16 then [digit_char n] else format_hex (n div 16) @ [digit_char (n mod 16)])"

declare format_dec.simps [simp del]
declare format_hex.simps [simp del]

text \<open>\<^verbatim>\<open>"%d" % i\<close> for a Python integer.\<close>

definition format_d :: "int \<Rightarrow> string" where
  "format_d i = (if i < 0 then ''-'' @ format_dec (nat (- i)) else format_dec (nat i))"

definition dquote :: string where
  "dquote = [CHR 0x22]"

subsection \<open>SmolStr: the summary provider\<close>

text \<open>
  The tail shared by the three branches of \<^verbatim>\<open>SmolStrSummaryProvider\<close>: read
  \<open>n\<close> bytes at \<open>address\<close>, decode them under Python 3, and quote the text. A failed
  read and a failed decoding both give the empty quoted string.
\<close>

definition summary_read :: "host \<Rightarrow> nat \<Rightarrow> nat \<Rightarrow> string" where
  "summary_read h address n =
     (case ReadMemory h address n of
        None \<Rightarrow> dquote @ dquote
      | Some data \<Rightarrow>
          if PY3 h then
            (case decode h data of
               Inl e \<Rightarrow> dquote @ dquote
             | Inr text \<Rightarrow> dquote @ text @ dquote)
          else dquote @ data @ dquote)"

definition summary_Inline :: "host \<Rightarrow> SBValue \<Rightarrow> nat \<Rightarrow> string" where
  "summary_Inline h variants discriminant =
     (let length = discriminant in
      if length = 0 then dquote @ dquote else
      let variant0 = GetChildMemberWithName variants ''$variant$'' in
      if \<not> IsValid variant0 then dquote @ dquote else
      let value = GetChildMemberWithName variant0 ''value'' in
      if \<not> IsValid value then dquote @ dquote else
      let buf = GetChildMemberWithName value ''buf'' in
      if \<not> IsValid buf then dquote @ dquote else
      summary_read h (GetLoadAddress buf) length)"

definition summary_Static :: "host \<Rightarrow> SBValue \<Rightarrow> string" where
  "summary_Static h variant24 =
     (let value = GetChildMemberWithName variant24 ''value'' in
      if \<not> IsValid value then dquote @ dquote else
      let str_ref = GetChildMemberWithName value ''__0'' in
      if \<not> IsValid str_ref then dquote @ dquote else
      let data_ptr = GetChildMemberWithName str_ref ''data_ptr'';
          length_field = GetChildMemberWithName str_ref ''length'' in
      if \<not> IsValid data_ptr \<or> \<not> IsValid length_field then dquote @ dquote else
      let length = GetValueAsUnsigned length_field in
      if length = 0 then dquote @ dquote else
      let ptr = GetValueAsUnsigned data_ptr in
      summary_read h ptr length)"

definition summary_Heap :: "host \<Rightarrow> SBValue \<Rightarrow> string" where
  "summary_Heap h variants =
     (let variant25 = GetChildMemberWithName variants ''$variant$25'' in
      if \<not> IsValid variant25 then dquote @ dquote else
      let value = GetChildMemberWithName variant25 ''value'' in
      if \<not> IsValid value then dquote @ dquote else
      let inner = GetChildMemberWithName value ''__0'' in
      if \<not> IsValid inner then dquote @ dquote else
      let ptr_field = GetChildMemberWithName inner ''ptr'' in
      if \<not> IsValid ptr_field then dquote @ dquote else
      let pointer = GetChildMemberWithName ptr_field ''pointer'' in
      if \<not> IsValid pointer then dquote @ dquote else
      let data_ptr = GetChildMemberWithName pointer ''data_ptr'';
          length_field = GetChildMemberWithName pointer ''length'' in
      if \<not> IsValid data_ptr \<or> \<not> IsValid length_field then dquote @ dquote else
      let length = GetValueAsUnsigned length_field in
      if length = 0 then dquote @ dquote else
      let ptr = GetValueAsUnsigned data_ptr;
          arc_header_size = 16;
          string_data_ptr = ptr + arc_header_size in
      summary_read h string_data_ptr length)"

definition SmolStrSummaryProvider :: "host \<Rightarrow> SBValue \<Rightarrow> string" where
  "SmolStrSummaryProvider h valobj0 =
     (let valobj = GetNonSyntheticValue valobj0;
          repr_enum = GetChildAtIndex valobj 0;
          variants = GetChildMemberWithName repr_enum ''$variants$'' in
      if \<not> IsValid variants then dquote @ dquote else
      let variant24 = GetChildMemberWithName variants ''$variant$24'' in
      if \<not> IsValid variant24 then dquote @ dquote else
      let discr_field = GetChildMemberWithName variant24 ''$discr$'' in
      if \<not> IsValid discr_field then dquote @ dquote else
      let discriminant = GetValueAsUnsigned discr_field in
      if discriminant \<le> 23 then summary_Inline h variants discriminant
      else if discriminant = 24 then summary_Static h variant24
      else summary_Heap h variants)"

subsection \<open>SmolStr: the synthetic provider\<close>

record SmolStrSyntheticProvider =
  variant_name :: string
  length_str :: nat
  content :: string
  pointer :: nat
  content_address :: nat

text \<open>The fields as \<^verbatim>\<open>__init__\<close> and the first lines of \<^verbatim>\<open>update\<close> set them.\<close>

definition SmolStr_init :: SmolStrSyntheticProvider where
  "SmolStr_init =
     \<lparr>variant_name = [], length_str = 0, content = [], pointer = 0, content_address = 0\<rparr>"

text \<open>
  The tail shared by the three branches of \<^verbatim>\<open>update\<close>: the content is set only when
  the read succeeds; a decoding that raises sets it to the empty string.
\<close>

definition read_content ::
  "host \<Rightarrow> nat \<Rightarrow> nat \<Rightarrow> SmolStrSyntheticProvider \<Rightarrow> SmolStrSyntheticProvider" where
  "read_content h address n s =
     (case ReadMemory h address n of
        None \<Rightarrow> s
      | Some data \<Rightarrow>
          if PY3 h then
            (case decode h data of
               Inl e \<Rightarrow> s\<lparr>content := []\<rparr>
             | Inr text \<Rightarrow> s\<lparr>content := text\<rparr>)
          else s\<lparr>content := data\<rparr>)"

text \<open>
  \<^verbatim>\<open>update\<close> returns the fields it leaves in the provider, and with them the list of
  the \<^verbatim>\<open>ReadMemory\<close> calls it made, as (address, size).
\<close>

type_synonym reads = "(nat \<times> nat) list"

definition SmolStr_update_Inline ::
  "host \<Rightarrow> SBValue \<Rightarrow> nat \<Rightarrow> SmolStrSyntheticProvider \<Rightarrow> reads \<times> SmolStrSyntheticProvider" where
  "SmolStr_update_Inline h variants discriminant s0 =
     (let s = s0\<lparr>variant_name := ''Inline'', length_str := discriminant\<rparr> in
      if length_str s = 0 then ([], s\<lparr>content := []\<rparr>) else
      let variant0 = GetChildMemberWithName variants ''$variant$'' in
      if \<not> IsValid variant0 then ([], s) else
      let value = GetChildMemberWithName variant0 ''value'' in
      if \<not> IsValid value then ([], s) else
      let buf = GetChildMemberWithName value ''buf'' in
      if \<not> IsValid buf then ([], s) else
      let s = s\<lparr>content_address := GetLoadAddress buf\<rparr> in
      ([(content_address s, length_str s)],
       read_content h (content_address s) (length_str s) s))"

definition SmolStr_update_Static ::
  "host \<Rightarrow> SBValue \<Rightarrow> SmolStrSyntheticProvider \<Rightarrow> reads \<times> SmolStrSyntheticProvider" where
  "SmolStr_update_Static h variant24 s0 =
     (let s = s0\<lparr>variant_name := ''Static''\<rparr>;
          value = GetChildMemberWithName variant24 ''value'' in
      if \<not> IsValid value then ([], s) else
      let str_ref = GetChildMemberWithName value ''__0'' in
      if \<not> IsValid str_ref then ([], s) else
      let data_ptr = GetChildMemberWithName str_ref ''data_ptr'';
          length_field = GetChildMemberWithName str_ref ''length'' in
      if \<not> IsValid data_ptr \<or> \<not> IsValid length_field then ([], s) else
      let s = s\<lparr>length_str := GetValueAsUnsigned length_field\<rparr>;
          s = s\<lparr>pointer := GetValueAsUnsigned data_ptr\<rparr>;
          s = s\<lparr>content_address := pointer s\<rparr> in
      if length_str s = 0 then ([], s\<lparr>content := []\<rparr>) else
      ([(pointer s, length_str s)], read_content h (pointer s) (length_str s) s))"

definition SmolStr_update_Heap ::
  "host \<Rightarrow> SBValue \<Rightarrow> SmolStrSyntheticProvider \<Rightarrow> reads \<times> SmolStrSyntheticProvider" where
  "SmolStr_update_Heap h variants s0 =
     (let s = s0\<lparr>variant_name := ''Heap''\<rparr>;
          variant25 = GetChildMemberWithName variants ''$variant$25'' in
      if \<not> IsValid variant25 then ([], s) else
      let value = GetChildMemberWithName variant25 ''value'' in
      if \<not> IsValid value then ([], s) else
      let inner = GetChildMemberWithName value ''__0'' in
      if \<not> IsValid inner then ([], s) else
      let ptr_field = GetChildMemberWithName inner ''ptr'' in
      if \<not> IsValid ptr_field then ([], s) else
      let pointer_field = GetChildMemberWithName ptr_field ''pointer'' in
      if \<not> IsValid pointer_field then ([], s) else
      let data_ptr = GetChildMemberWithName pointer_field ''data_ptr'';
          length_field = GetChildMemberWithName pointer_field ''length'' in
      if \<not> IsValid data_ptr \<or> \<not> IsValid length_field then ([], s) else
      let s = s\<lparr>length_str := GetValueAsUnsigned length_field\<rparr>;
          s = s\<lparr>pointer := GetValueAsUnsigned data_ptr\<rparr> in
      if length_str s = 0 then ([], s\<lparr>content := []\<rparr>) else
      let arc_header_size = 16;
          string_data_ptr = pointer s + arc_header_size;
          s = s\<lparr>content_address := string_data_ptr\<rparr> in
      ([(string_data_ptr, length_str s)], read_content h string_data_ptr (length_str s) s))"

text \<open>
  Every call inside the \<^verbatim>\<open>try\<close> block of \<^verbatim>\<open>update\<close> is total here: navigation
  answers with an invalid value, the read with its flag, and a decoding that raises is
  caught where it is made. The outer handler, which restores \<open>SmolStr_init\<close>, is
  therefore not reached.
\<close>

definition SmolStr_update :: "host \<Rightarrow> SBValue \<Rightarrow> reads \<times> SmolStrSyntheticProvider" where
  "SmolStr_update h valobj0 =
     (let s = SmolStr_init;
          valobj = GetNonSyntheticValue valobj0;
          repr_enum = GetChildAtIndex valobj 0;
          variants = GetChildMemberWithName repr_enum ''$variants$'' in
      if \<not> IsValid variants then ([], s) else
      let variant24 = GetChildMemberWithName variants ''$variant$24'' in
      if \<not> IsValid variant24 then ([], s) else
      let discr_field = GetChildMemberWithName variant24 ''$discr$'' in
      if \<not> IsValid discr_field then ([], s) else
      let discriminant = GetValueAsUnsigned discr_field in
      if discriminant \<le> 23 then SmolStr_update_Inline h variants discriminant s
      else if discriminant = 24 then SmolStr_update_Static h variant24 s
      else SmolStr_update_Heap h variants s)"

definition SmolStr_num_children :: "SmolStrSyntheticProvider \<Rightarrow> nat" where
  "SmolStr_num_children s =
     (if variant_name s \<in> {''Static'', ''Heap''} then 4 else 3)"

definition SmolStr_get_child_index :: "string \<Rightarrow> int" where
  "SmolStr_get_child_index name =
     (if name = ''variant'' then 0
      else if name = ''length'' then 1
      else if name = ''content'' then 2
      else if name = ''pointer'' then 3
      else - 1)"

text \<open>A host call inside \<^verbatim>\<open>try\<close>: an exception becomes \<^verbatim>\<open>None\<close>.\<close>

definition catch :: "exn + 'a \<Rightarrow> 'a option" where
  "catch r = (case r of Inl e \<Rightarrow> None | Inr x \<Rightarrow> Some x)"

definition SmolStr_get_child_at_index ::
  "host \<Rightarrow> SmolStrSyntheticProvider \<Rightarrow> int \<Rightarrow> SBValue option" where
  "SmolStr_get_child_at_index h s index =
     (if index < 0 then None
      else if index = 0 then
        catch (CreateValueFromExpression h ''variant''
                 (''(const char*)'' @ dquote @ variant_name s @ dquote))
      else if index = 1 then
        catch (CreateValueFromExpression h ''length''
                 (''(unsigned long long)'' @ format_d (int (length_str s))))
      else if index = 2 then
        (if content_address s \<noteq> 0 \<and> length_str s > 0 then
           let char_type = BasicTypeChar;
               char_array_type = ArrayType char_type (length_str s) in
           catch (CreateValueFromAddress h ''content'' (content_address s) char_array_type)
         else
           catch (CreateValueFromExpression h ''content''
                    (''(const char*)'' @ dquote @ dquote)))
      else if index = 3 \<and> variant_name s \<in> {''Static'', ''Heap''} then
        catch (CreateValueFromExpression h ''pointer''
                 (''(void*)0x'' @ format_hex (pointer s)))
      else None)"

definition SmolStr_has_children :: "SmolStrSyntheticProvider \<Rightarrow> bool" where
  "SmolStr_has_children s = True"

subsection \<open>SmallVec: the summary provider\<close>

definition SmallVecSummaryProvider :: "SBValue \<Rightarrow> string" where
  "SmallVecSummaryProvider valobj0 =
     (let valobj = GetNonSyntheticValue valobj0;
          len_field = GetChildMemberWithName valobj ''len'' in
      if \<not> IsValid len_field then ''size=?'' else
      let len_inner = GetChildMemberWithName len_field ''__0'' in
      if \<not> IsValid len_inner then ''size=?'' else
      let len_value = GetValueAsUnsigned len_inner;
          actual_length = drop_bit 1 len_value in
      ''size='' @ format_d (int actual_length))"

subsection \<open>SmallVec: the synthetic provider\<close>

record SmallVecSyntheticProvider =
  length_vec :: nat
  is_heap :: bool
  heap_ptr :: nat
  inline_data_address :: nat
  element_size :: nat
  element_type :: "SBType option"

definition SmallVec_init :: SmallVecSyntheticProvider where
  "SmallVec_init =
     \<lparr>length_vec = 0, is_heap = False, heap_ptr = 0, inline_data_address = 0,
      element_size = 0, element_type = None\<rparr>"

definition SmallVec_update_heap ::
  "SBValue \<Rightarrow> SmallVecSyntheticProvider \<Rightarrow> SmallVecSyntheticProvider" where
  "SmallVec_update_heap raw s =
     (let heap = GetChildMemberWithName raw ''heap'' in
      if \<not> IsValid heap then s\<lparr>length_vec := 0\<rparr> else
      let ptr_wrapper = GetChildMemberWithName heap ''__0'' in
      if \<not> IsValid ptr_wrapper then s\<lparr>length_vec := 0\<rparr> else
      let pointer_field = GetChildMemberWithName ptr_wrapper ''pointer'' in
      if \<not> IsValid pointer_field then s\<lparr>length_vec := 0\<rparr> else
      let s = s\<lparr>heap_ptr := GetValueAsUnsigned pointer_field\<rparr> in
      if heap_ptr s = 0 then s\<lparr>length_vec := 0\<rparr> else s)"

definition SmallVec_update_inline ::
  "SBValue \<Rightarrow> SmallVecSyntheticProvider \<Rightarrow> SmallVecSyntheticProvider" where
  "SmallVec_update_inline raw s =
     (let inline = GetChildMemberWithName raw ''inline'' in
      if \<not> IsValid inline then s\<lparr>length_vec := 0\<rparr> else
      let value1 = GetChildMemberWithName inline ''value'' in
      if \<not> IsValid value1 then s\<lparr>length_vec := 0\<rparr> else
      let value2 = GetChildMemberWithName value1 ''value'' in
      if \<not> IsValid value2 then s\<lparr>length_vec := 0\<rparr> else
      let value_array = GetChildMemberWithName value2 ''value'' in
      if \<not> IsValid value_array then s\<lparr>length_vec := 0\<rparr> else
      let s = s\<lparr>inline_data_address := GetLoadAddress value_array\<rparr> in
      if inline_data_address s = 0 then s\<lparr>length_vec := 0\<rparr> else s)"

text \<open>
  \<^verbatim>\<open>update\<close> of the vector provider reads no memory. As for the string provider, every
  call in its \<^verbatim>\<open>try\<close> block is total here, so its handler is not reached.
\<close>

definition SmallVec_update :: "SBValue \<Rightarrow> SmallVecSyntheticProvider" where
  "SmallVec_update valobj0 =
     (let s = SmallVec_init;
          valobj = GetNonSyntheticValue valobj0;
          len_field = GetChildMemberWithName valobj ''len'' in
      if \<not> IsValid len_field then s else
      let len_inner = GetChildMemberWithName len_field ''__0'' in
      if \<not> IsValid len_inner then s else
      let len_value = GetValueAsUnsigned len_inner;
          s = s\<lparr>is_heap := (len_value AND 1 = 1)\<rparr>;
          s = s\<lparr>length_vec := drop_bit 1 len_value\<rparr>;
          ty = GetTemplateArgumentType0 valobj;
          s = s\<lparr>element_type := Some ty\<rparr> in
      if \<not> Type_IsValid ty then s\<lparr>length_vec := 0\<rparr> else
      let s = s\<lparr>element_size := GetByteSize ty\<rparr> in
      if element_size s = 0 then s\<lparr>length_vec := 0\<rparr> else
      let raw = GetChildMemberWithName valobj ''raw'' in
      if \<not> IsValid raw then s\<lparr>length_vec := 0\<rparr> else
      if is_heap s then SmallVec_update_heap raw s else SmallVec_update_inline raw s)"

definition SmallVec_num_children :: "SmallVecSyntheticProvider \<Rightarrow> nat" where
  "SmallVec_num_children s = length_vec s"

definition SmallVec_has_children :: "SmallVecSyntheticProvider \<Rightarrow> bool" where
  "SmallVec_has_children s = (length_vec s > 0)"

text \<open>The child's name is \<^verbatim>\<open>"[%d]" % index\<close>.\<close>

definition SmallVec_get_child_at_index ::
  "host \<Rightarrow> SmallVecSyntheticProvider \<Rightarrow> int \<Rightarrow> SBValue option" where
  "SmallVec_get_child_at_index h s index =
     (if index < 0 \<or> index \<ge> int (length_vec s) then None else
      case element_type s of
        None \<Rightarrow> None
      | Some ty \<Rightarrow>
          if \<not> Type_IsValid ty then None else
          if element_size s = 0 then None else
          if is_heap s then
            (if heap_ptr s = 0 then None else
             let address = heap_ptr s + nat index * element_size s in
             catch (CreateValueFromAddress h (''['' @ format_d index @ '']'') address ty))
          else
            (if inline_data_address s = 0 then None else
             let address = inline_data_address s + nat index * element_size s in
             catch (CreateValueFromAddress h (''['' @ format_d index @ '']'') address ty)))"

subsection \<open>Notions the properties speak of\<close>

text \<open>
  The discriminant of a small string, when the three fields both providers read first
  (\<^verbatim>\<open>$variants$\<close>, \<^verbatim>\<open>$variant$24\<close>, \<^verbatim>\<open>$discr$\<close>) are all there.
\<close>

definition SmolStr_variants :: "SBValue \<Rightarrow> SBValue" where
  "SmolStr_variants valobj =
     GetChildMemberWithName (GetChildAtIndex (GetNonSyntheticValue valobj) 0) ''$variants$''"

definition SmolStr_variant24 :: "SBValue \<Rightarrow> SBValue" where
  "SmolStr_variant24 valobj = GetChildMemberWithName (SmolStr_variants valobj) ''$variant$24''"

definition SmolStr_discriminant :: "SBValue \<Rightarrow> nat option" where
  "SmolStr_discriminant valobj =
     (let discr_field = GetChildMemberWithName (SmolStr_variant24 valobj) ''$discr$'' in
      if IsValid discr_field then Some (GetValueAsUnsigned discr_field) else None)"

text \<open>
  The fields a small string's decoding goes through, in the order the providers ask for
  them: the three above, then those of the branch the discriminant selects.
\<close>

definition SmolStr_required :: "SBValue \<Rightarrow> SBValue list" where
  "SmolStr_required valobj =
     (let variants = SmolStr_variants valobj;
          variant24 = SmolStr_variant24 valobj;
          discr_field = GetChildMemberWithName variant24 ''$discr$'';
          d = GetValueAsUnsigned discr_field
      in [variants, variant24, discr_field] @
         (if d \<le> 23 then
            (if d = 0 then [] else
             let variant0 = GetChildMemberWithName variants ''$variant$'';
                 value = GetChildMemberWithName variant0 ''value''
             in [variant0, value, GetChildMemberWithName value ''buf''])
          else if d = 24 then
            (let value = GetChildMemberWithName variant24 ''value'';
                 str_ref = GetChildMemberWithName value ''__0''
             in [value, str_ref, GetChildMemberWithName str_ref ''data_ptr'',
                 GetChildMemberWithName str_ref ''length''])
          else
            (let variant25 = GetChildMemberWithName variants ''$variant$25'';
                 value = GetChildMemberWithName variant25 ''value'';
                 inner = GetChildMemberWithName value ''__0'';
                 ptr_field = GetChildMemberWithName inner ''ptr'';
                 pointer_field = GetChildMemberWithName ptr_field ''pointer''
             in [variant25, value, inner, ptr_field, pointer_field,
                 GetChildMemberWithName pointer_field ''data_ptr'',
                 GetChildMemberWithName pointer_field ''length''])))"

text \<open>The raw length field of a small vector, \<^verbatim>\<open>len.__0\<close>, when it is there.\<close>

definition SmallVec_raw_length :: "SBValue \<Rightarrow> nat option" where
  "SmallVec_raw_length valobj =
     (let len_inner =
        GetChildMemberWithName
          (GetChildMemberWithName (GetNonSyntheticValue valobj) ''len'') ''__0''
      in if IsValid len_inner then Some (GetValueAsUnsigned len_inner) else None)"

text \<open>
  Where the elements of a small vector are, for heap storage (\<^verbatim>\<open>raw.heap.__0.pointer\<close>,
  the pointer's value) and for inline storage (\<^verbatim>\<open>raw.inline.value.value.value\<close>, its
  load address); \<open>None\<close> when a field on the way is missing.
\<close>

definition SmallVec_storage_address :: "SBValue \<Rightarrow> bool \<Rightarrow> nat option" where
  "SmallVec_storage_address valobj heap =
     (let raw = GetChildMemberWithName (GetNonSyntheticValue valobj) ''raw'' in
      if heap then
        (let pointer_field =
           GetChildMemberWithName
             (GetChildMemberWithName (GetChildMemberWithName raw ''heap'') ''__0'') ''pointer''
         in if IsValid pointer_field then Some (GetValueAsUnsigned pointer_field) else None)
      else
        (let value_array =
           GetChildMemberWithName
             (GetChildMemberWithName
                (GetChildMemberWithName (GetChildMemberWithName raw ''inline'') ''value'')
                ''value'') ''value''
         in if IsValid value_array then Some (GetLoadAddress value_array) else None))"

text \<open>The fields a small vector's decoding goes through.\<close>

definition SmallVec_required :: "SBValue \<Rightarrow> SBValue list" where
  "SmallVec_required valobj0 =
     (let valobj = GetNonSyntheticValue valobj0;
          len_field = GetChildMemberWithName valobj ''len'';
          len_inner = GetChildMemberWithName len_field ''__0'';
          raw = GetChildMemberWithName valobj ''raw''
      in [len_field, len_inner, raw] @
         (if GetValueAsUnsigned len_inner AND 1 = 1 then
            (let heap = GetChildMemberWithName raw ''heap'';
                 ptr_wrapper = GetChildMemberWithName heap ''__0''
             in [heap, ptr_wrapper, GetChildMemberWithName ptr_wrapper ''pointer''])
          else
            (let inline = GetChildMemberWithName raw ''inline'';
                 value1 = GetChildMemberWithName inline ''value'';
                 value2 = GetChildMemberWithName value1 ''value''
             in [inline, value1, value2, GetChildMemberWithName value2 ''value''])))"

text \<open>The address \<^verbatim>\<open>get_child_at_index\<close> counts from: the one of the storage in use.\<close>

definition base_address :: "SmallVecSyntheticProvider \<Rightarrow> nat" where
  "base_address s = (if is_heap s then heap_ptr s else inline_data_address s)"

subsection \<open>Example values\<close>

definition struct :: "(string \<times> SBValue) list \<Rightarrow> SBValue" where
  "struct ms = SBValue True 0 0 (DebugType False 0) ms"

definition scalar :: "nat \<Rightarrow> SBValue" where
  "scalar n = SBValue True n 0 (DebugType False 0) []"

definition located :: "nat \<Rightarrow> SBValue" where
  "located a = SBValue True 0 a (DebugType False 0) []"

text \<open>A small string: its \<^verbatim>\<open>$variants$\<close> field holds the given variants.\<close>

definition smol_str :: "(string \<times> SBValue) list \<Rightarrow> SBValue" where
  "smol_str vs = struct [(''__0'', struct [(''$variants$'', struct vs)])]"

definition str_ref :: "nat \<Rightarrow> nat \<Rightarrow> SBValue" where
  "str_ref p n = struct [(''data_ptr'', scalar p), (''length'', scalar n)]"

definition ex_inline :: "nat \<Rightarrow> nat \<Rightarrow> SBValue" where
  "ex_inline d a =
     smol_str [(''$variant$'', struct [(''value'', struct [(''buf'', located a)])]),
               (''$variant$24'', struct [(''$discr$'', scalar d)])]"

definition ex_static :: "nat \<Rightarrow> nat \<Rightarrow> SBValue" where
  "ex_static p n =
     smol_str [(''$variant$24'',
                struct [(''$discr$'', scalar 24),
                        (''value'', struct [(''__0'', str_ref p n)])])]"

definition ex_heap :: "nat \<Rightarrow> nat \<Rightarrow> nat \<Rightarrow> SBValue" where
  "ex_heap d p n =
     smol_str [(''$variant$24'', struct [(''$discr$'', scalar d)]),
               (''$variant$25'',
                struct [(''value'',
                  struct [(''__0'',
                    struct [(''ptr'', struct [(''pointer'', str_ref p n)])])])])]"

text \<open>A heap string whose \<^verbatim>\<open>$variant$25\<close> is not there.\<close>

definition ex_heap_unreadable :: SBValue where
  "ex_heap_unreadable = smol_str [(''$variant$24'', struct [(''$discr$'', scalar 25)])]"

text \<open>Small vectors: the raw length, the element type, and the storage.\<close>

definition ex_vec_heap :: "nat \<Rightarrow> SBType \<Rightarrow> nat \<Rightarrow> SBValue" where
  "ex_vec_heap r ty p =
     SBValue True 0 0 ty
       [(''len'', struct [(''__0'', scalar r)]),
        (''raw'', struct [(''heap'', struct [(''__0'', struct [(''pointer'', scalar p)])])])]"

definition ex_vec_inline :: "nat \<Rightarrow> SBType \<Rightarrow> nat \<Rightarrow> SBValue" where
  "ex_vec_inline r ty a =
     SBValue True 0 0 ty
       [(''len'', struct [(''__0'', scalar r)]),
        (''raw'',
         struct [(''inline'',
           struct [(''value'', struct [(''value'', struct [(''value'', located a)])])])])]"

text \<open>A vector whose \<^verbatim>\<open>raw\<close> union is not there.\<close>

definition ex_vec_no_raw :: "nat \<Rightarrow> SBType \<Rightarrow> SBValue" where
  "ex_vec_no_raw r ty = SBValue True 0 0 ty [(''len'', struct [(''__0'', scalar r)])]"

text \<open>
  A host under Python 3 whose memory holds \<^verbatim>\<open>hello\<close> at address 4096 and \<^verbatim>\<open>abc\<close> at
  8208, and which creates the values it is asked for.
\<close>

definition ex_host :: host where
  "ex_host =
     \<lparr>PY3 = True,
      ReadMemory = (\<lambda>a n. if a = 4096 \<and> n = 5 then Some ''hello''
                          else if a = 8208 \<and> n = 3 then Some ''abc'' else None),
      decode = (\<lambda>bs. Inr bs),
      CreateValueFromExpression = (\<lambda>name expr. Inr (scalar 0)),
      CreateValueFromAddress = (\<lambda>name a ty. Inr (SBValue True 0 a ty []))\<rparr>"

section \<open>Properties\<close>

subsection \<open>Navigation\<close>

lemma IsValid_invalid [simp]: "\<not> IsValid invalid_SBValue"
  by (simp add: invalid_SBValue_def)

lemma IsValid_member: "IsValid (GetChildMemberWithName v name) \<Longrightarrow> IsValid v"
  by (cases "IsValid v") (simp_all add: GetChildMemberWithName_def)

lemma member_of_invalid [simp]:
  "\<not> IsValid v \<Longrightarrow> GetChildMemberWithName v name = invalid_SBValue"
  by (simp add: GetChildMemberWithName_def)

lemmas nav_defs = GetChildMemberWithName_def GetChildAtIndex_def GetNonSyntheticValue_def
  invalid_SBValue_def struct_def scalar_def located_def smol_str_def str_ref_def

lemmas format_simps = format_d_def format_dec.simps format_hex.simps digit_char_def

lemmas SmolStr_update_defs = SmolStr_update_def SmolStr_update_Inline_def
  SmolStr_update_Static_def SmolStr_update_Heap_def read_content_def SmolStr_init_def

lemmas SmallVec_update_defs = SmallVec_update_def SmallVec_update_heap_def
  SmallVec_update_inline_def SmallVec_init_def

lemma catch_simps [simp]: "catch (Inl e) = None" "catch (Inr x) = Some x"
  by (simp_all add: catch_def)

subsection \<open>The children of a small string\<close>

text \<open>
  C9. The string provider always answers \<^verbatim>\<open>has_children()\<close> with true and counts at
  least three children, whatever its fields hold: after any decoding, and also in the
  state a decoding that found nothing leaves (variant unset, length 0), where the count
  is exactly three. The count is never 0.
\<close>

theorem SmolStr_children_at_least_three:
  "SmolStr_has_children s \<and> 3 \<le> SmolStr_num_children s \<and> SmolStr_num_children s \<noteq> 0
   \<and> SmolStr_has_children (snd (SmolStr_update h valobj))
   \<and> 3 \<le> SmolStr_num_children (snd (SmolStr_update h valobj))
   \<and> SmolStr_num_children SmolStr_init = 3
   \<and> snd (SmolStr_update h invalid_SBValue) = SmolStr_init"
  by (simp add: SmolStr_has_children_def SmolStr_num_children_def SmolStr_init_def
      SmolStr_update_def GetNonSyntheticValue_def GetChildAtIndex_def)

text \<open>
  C8. The children of a string record: index 0 is \<^verbatim>\<open>variant\<close>, the variant's name as
  text; index 1 is \<^verbatim>\<open>length\<close>, an unsigned integer; index 2 is \<^verbatim>\<open>content\<close>, a
  \<^verbatim>\<open>char[length]\<close> at the content address, or the empty placeholder when the address or
  the length is 0; index 3 is \<^verbatim>\<open>pointer\<close>, there exactly when the variant is Static
  or Heap, which is also exactly when four children are counted instead of three. No
  index from the count on has a child. (A child the host fails to create is \<^verbatim>\<open>None\<close>.)
\<close>

theorem SmolStr_children:
  "SmolStr_get_child_at_index h s 0 =
     catch (CreateValueFromExpression h ''variant''
              (''(const char*)'' @ dquote @ variant_name s @ dquote))
   \<and> SmolStr_get_child_at_index h s 1 =
     catch (CreateValueFromExpression h ''length''
              (''(unsigned long long)'' @ format_d (int (length_str s))))
   \<and> SmolStr_get_child_at_index h s 2 =
     (if content_address s = 0 \<or> length_str s = 0
      then catch (CreateValueFromExpression h ''content'' (''(const char*)'' @ dquote @ dquote))
      else catch (CreateValueFromAddress h ''content'' (content_address s)
                    (ArrayType BasicTypeChar (length_str s))))
   \<and> SmolStr_get_child_at_index h s 3 =
     (if variant_name s = ''Static'' \<or> variant_name s = ''Heap''
      then catch (CreateValueFromExpression h ''pointer'' (''(void*)0x'' @ format_hex (pointer s)))
      else None)
   \<and> SmolStr_num_children s =
     (if variant_name s = ''Static'' \<or> variant_name s = ''Heap'' then 4 else 3)
   \<and> (int (SmolStr_num_children s) \<le> i \<longrightarrow> SmolStr_get_child_at_index h s i = None)
   \<and> SmolStr_get_child_index ''variant'' = 0 \<and> SmolStr_get_child_index ''length'' = 1
   \<and> SmolStr_get_child_index ''content'' = 2 \<and> SmolStr_get_child_index ''pointer'' = 3"
  by (simp add: SmolStr_get_child_at_index_def SmolStr_num_children_def
      SmolStr_get_child_index_def)

theorem SmolStr_children_witness:
  "SmolStr_get_child_at_index ex_host (snd (SmolStr_update ex_host (ex_heap 25 8192 3))) 3 =
     catch (CreateValueFromExpression ex_host ''pointer'' ''(void*)0x2000'')
   \<and> SmolStr_num_children (snd (SmolStr_update ex_host (ex_inline 5 4096))) = 3
   \<and> int (SmolStr_num_children (snd (SmolStr_update ex_host (ex_inline 5 4096)))) \<le> 3
   \<and> SmolStr_get_child_at_index ex_host (snd (SmolStr_update ex_host (ex_inline 5 4096))) 3 = None"
proof -
  have heap: "snd (SmolStr_update ex_host (ex_heap 25 8192 3)) =
      \<lparr>variant_name = ''Heap'', length_str = 3, content = ''abc'', pointer = 8192,
       content_address = 8208\<rparr>"
    by (simp add: SmolStr_update_defs ex_heap_def ex_host_def nav_defs)
  have inl: "snd (SmolStr_update ex_host (ex_inline 5 4096)) =
      \<lparr>variant_name = ''Inline'', length_str = 5, content = ''hello'', pointer = 0,
       content_address = 4096\<rparr>"
    by (simp add: SmolStr_update_defs ex_inline_def ex_host_def nav_defs)
  have hex: "format_hex 8192 = ''2000''"
    by (simp add: format_simps)
  show ?thesis
    using SmolStr_children [of ex_host "snd (SmolStr_update ex_host (ex_heap 25 8192 3))" 3]
      SmolStr_children [of ex_host "snd (SmolStr_update ex_host (ex_inline 5 4096))" 3]
    by (simp add: heap inl hex)
qed

subsection \<open>The elements of a small vector\<close>

text \<open>
  C10. The vector's child accessor returns \<^verbatim>\<open>None\<close> for a negative index, for an index
  from the length on, when there is no element type or an invalid one, when the element
  size is 0 and when the address of the storage in use is 0. It returns \<^verbatim>\<open>None\<close> as
  well when the host raises while creating the element, so it never raises itself.
\<close>

theorem SmallVec_child_None:
  "(index < 0 \<or> int (length_vec s) \<le> index \<or> element_type s = None
      \<or> (\<exists>ty. element_type s = Some ty \<and> \<not> Type_IsValid ty)
      \<or> element_size s = 0 \<or> base_address s = 0
    \<longrightarrow> SmallVec_get_child_at_index h s index = None)
   \<and> ((\<forall>name a ty. CreateValueFromAddress h name a ty = Inl Exception)
    \<longrightarrow> SmallVec_get_child_at_index h s index = None)"
  by (auto simp add: SmallVec_get_child_at_index_def base_address_def split: option.splits)

theorem SmallVec_child_None_witness:
  "int (length_vec (SmallVec_update (ex_vec_heap 7 (DebugType True 4) 4096))) \<le> 3
   \<and> SmallVec_get_child_at_index ex_host
       (SmallVec_update (ex_vec_heap 7 (DebugType True 4) 4096)) 3 = None
   \<and> base_address (SmallVec_update (ex_vec_heap 7 (DebugType True 4) 0)) = 0
   \<and> SmallVec_get_child_at_index ex_host
       (SmallVec_update (ex_vec_heap 7 (DebugType True 4) 0)) 0 = None
   \<and> SmallVec_get_child_at_index (ex_host\<lparr>CreateValueFromAddress := \<lambda>name a ty. Inl Exception\<rparr>)
       (SmallVec_update (ex_vec_heap 7 (DebugType True 4) 4096)) 1 = None"
proof -
  have v: "SmallVec_update (ex_vec_heap 7 (DebugType True 4) 4096) =
      \<lparr>length_vec = 3, is_heap = True, heap_ptr = 4096, inline_data_address = 0,
       element_size = 4, element_type = Some (DebugType True 4)\<rparr>"
    by (simp add: SmallVec_update_defs ex_vec_heap_def nav_defs)
  have z: "SmallVec_update (ex_vec_heap 7 (DebugType True 4) 0) =
      \<lparr>length_vec = 0, is_heap = True, heap_ptr = 0, inline_data_address = 0,
       element_size = 4, element_type = Some (DebugType True 4)\<rparr>"
    by (simp add: SmallVec_update_defs ex_vec_heap_def nav_defs)
  show ?thesis
    using SmallVec_child_None [of 3 "SmallVec_update (ex_vec_heap 7 (DebugType True 4) 4096)" ex_host]
      SmallVec_child_None [of 0 "SmallVec_update (ex_vec_heap 7 (DebugType True 4) 0)" ex_host]
      SmallVec_child_None [of 1 "SmallVec_update (ex_vec_heap 7 (DebugType True 4) 4096)"
        "ex_host\<lparr>CreateValueFromAddress := \<lambda>name a ty. Inl Exception\<rparr>"]
    by (simp add: v z base_address_def)
qed

subsection \<open>Decoding a small string\<close>

text \<open>Reading the content changes no other field.\<close>

lemma read_content_fields [simp]:
  "variant_name (read_content h a n s) = variant_name s"
  "length_str (read_content h a n s) = length_str s"
  "pointer (read_content h a n s) = pointer s"
  "content_address (read_content h a n s) = content_address s"
  by (simp_all add: read_content_def split: option.splits sum.splits)

text \<open>Both providers dispatch on the discriminant, once its three fields are there.\<close>

lemma discriminant_fields:
  assumes "SmolStr_discriminant valobj = Some d"
  shows "IsValid (SmolStr_variants valobj)" "IsValid (SmolStr_variant24 valobj)"
    "IsValid (GetChildMemberWithName (SmolStr_variant24 valobj) ''$discr$'')"
    "GetValueAsUnsigned (GetChildMemberWithName (SmolStr_variant24 valobj) ''$discr$'') = d"
proof -
  show v: "IsValid (GetChildMemberWithName (SmolStr_variant24 valobj) ''$discr$'')"
    using assms by (simp add: SmolStr_discriminant_def Let_def split: if_splits)
  show "GetValueAsUnsigned (GetChildMemberWithName (SmolStr_variant24 valobj) ''$discr$'') = d"
    using assms by (simp add: SmolStr_discriminant_def Let_def split: if_splits)
  show w: "IsValid (SmolStr_variant24 valobj)"
    using v by (rule IsValid_member)
  show "IsValid (SmolStr_variants valobj)"
    using w unfolding SmolStr_variant24_def by (rule IsValid_member)
qed

lemma SmolStr_update_dispatch:
  assumes "SmolStr_discriminant valobj = Some d"
  shows "SmolStr_update h valobj =
     (if d \<le> 23 then SmolStr_update_Inline h (SmolStr_variants valobj) d SmolStr_init
      else if d = 24 then SmolStr_update_Static h (SmolStr_variant24 valobj) SmolStr_init
      else SmolStr_update_Heap h (SmolStr_variants valobj) SmolStr_init)"
  using discriminant_fields [OF assms]
  by (simp add: SmolStr_update_def SmolStr_variant24_def SmolStr_variants_def Let_def)

lemma SmolStrSummaryProvider_dispatch:
  assumes "SmolStr_discriminant valobj = Some d"
  shows "SmolStrSummaryProvider h valobj =
     (if d \<le> 23 then summary_Inline h (SmolStr_variants valobj) d
      else if d = 24 then summary_Static h (SmolStr_variant24 valobj)
      else summary_Heap h (SmolStr_variants valobj))"
  using discriminant_fields [OF assms]
  by (simp add: SmolStrSummaryProvider_def SmolStr_variant24_def SmolStr_variants_def Let_def)

lemma SmolStr_update_no_discriminant:
  assumes "SmolStr_discriminant valobj = None"
  shows "SmolStr_update h valobj = ([], SmolStr_init)"
  using assms
  by (simp add: SmolStr_update_def SmolStr_discriminant_def SmolStr_variant24_def
      SmolStr_variants_def Let_def split: if_splits)

lemma SmolStrSummaryProvider_no_discriminant:
  assumes "SmolStr_discriminant valobj = None"
  shows "SmolStrSummaryProvider h valobj = dquote @ dquote"
  using assms
  by (simp add: SmolStrSummaryProvider_def SmolStr_discriminant_def SmolStr_variant24_def
      SmolStr_variants_def Let_def split: if_splits)

text \<open>What each branch of \<^verbatim>\<open>update\<close> leaves in the fields.\<close>

lemma update_Inline_fields:
  "variant_name (snd (SmolStr_update_Inline h variants d SmolStr_init)) = ''Inline''"
  "length_str (snd (SmolStr_update_Inline h variants d SmolStr_init)) = d"
  "pointer (snd (SmolStr_update_Inline h variants d SmolStr_init)) = 0"
  by (simp_all add: SmolStr_update_Inline_def SmolStr_init_def Let_def)

lemma update_Inline_empty:
  "SmolStr_update_Inline h variants 0 SmolStr_init =
     ([], \<lparr>variant_name = ''Inline'', length_str = 0, content = [], pointer = 0,
           content_address = 0\<rparr>)"
  by (simp add: SmolStr_update_Inline_def SmolStr_init_def)

lemma update_Static_fields:
  "variant_name (snd (SmolStr_update_Static h variant24 SmolStr_init)) = ''Static''"
  "content_address (snd (SmolStr_update_Static h variant24 SmolStr_init)) =
     pointer (snd (SmolStr_update_Static h variant24 SmolStr_init))"
  by (simp_all add: SmolStr_update_Static_def SmolStr_init_def Let_def)

lemma update_Static_empty:
  "length_str (snd (SmolStr_update_Static h variant24 SmolStr_init)) = 0 \<longrightarrow>
     fst (SmolStr_update_Static h variant24 SmolStr_init) = []
     \<and> content (snd (SmolStr_update_Static h variant24 SmolStr_init)) = []"
  by (simp add: SmolStr_update_Static_def SmolStr_init_def Let_def)

lemma update_Heap_fields:
  "variant_name (snd (SmolStr_update_Heap h variants SmolStr_init)) = ''Heap''"
  "content_address (snd (SmolStr_update_Heap h variants SmolStr_init)) =
     (if length_str (snd (SmolStr_update_Heap h variants SmolStr_init)) = 0 then 0
      else pointer (snd (SmolStr_update_Heap h variants SmolStr_init)) + 16)"
  by (simp_all add: SmolStr_update_Heap_def SmolStr_init_def Let_def)

lemma update_Heap_empty:
  "length_str (snd (SmolStr_update_Heap h variants SmolStr_init)) = 0 \<longrightarrow>
     fst (SmolStr_update_Heap h variants SmolStr_init) = []
     \<and> content (snd (SmolStr_update_Heap h variants SmolStr_init)) = []"
  by (simp add: SmolStr_update_Heap_def SmolStr_init_def Let_def)

text \<open>Evaluating the examples.\<close>

lemma ex_discriminant:
  "SmolStr_discriminant (ex_inline d a) = Some d"
  "SmolStr_discriminant (ex_static p n) = Some 24"
  "SmolStr_discriminant (ex_heap d p n) = Some d"
  "SmolStr_discriminant ex_heap_unreadable = Some 25"
  "SmolStr_discriminant invalid_SBValue = None"
  by (simp_all add: SmolStr_discriminant_def SmolStr_variant24_def SmolStr_variants_def Let_def
      ex_inline_def ex_static_def ex_heap_def ex_heap_unreadable_def nav_defs)

lemma ex_inline_update:
  "SmolStr_update ex_host (ex_inline 5 4096) =
     ([(4096, 5)],
      \<lparr>variant_name = ''Inline'', length_str = 5, content = ''hello'', pointer = 0,
       content_address = 4096\<rparr>)"
  by (simp add: SmolStr_update_defs ex_inline_def ex_host_def nav_defs)

lemma ex_static_update:
  "SmolStr_update ex_host (ex_static 8208 3) =
     ([(8208, 3)],
      \<lparr>variant_name = ''Static'', length_str = 3, content = ''abc'', pointer = 8208,
       content_address = 8208\<rparr>)"
  by (simp add: SmolStr_update_defs ex_static_def ex_host_def nav_defs)

lemma ex_static_empty_update:
  "SmolStr_update h (ex_static 8208 0) =
     ([],
      \<lparr>variant_name = ''Static'', length_str = 0, content = [], pointer = 8208,
       content_address = 8208\<rparr>)"
  by (simp add: SmolStr_update_defs ex_static_def nav_defs)

lemma ex_heap_update:
  "SmolStr_update ex_host (ex_heap 25 8192 3) =
     ([(8208, 3)],
      \<lparr>variant_name = ''Heap'', length_str = 3, content = ''abc'', pointer = 8192,
       content_address = 8208\<rparr>)"
  by (simp add: SmolStr_update_defs ex_heap_def ex_host_def nav_defs)

lemma ex_heap_empty_update:
  "SmolStr_update h (ex_heap 25 8192 0) =
     ([],
      \<lparr>variant_name = ''Heap'', length_str = 0, content = [], pointer = 8192,
       content_address = 0\<rparr>)"
  by (simp add: SmolStr_update_defs ex_heap_def nav_defs)

lemma ex_heap_unreadable_update:
  "SmolStr_update h ex_heap_unreadable =
     ([],
      \<lparr>variant_name = ''Heap'', length_str = 0, content = [], pointer = 0,
       content_address = 0\<rparr>)"
  by (simp add: SmolStr_update_defs ex_heap_unreadable_def nav_defs)

text \<open>
  C1. A small string whose discriminant is \<open>d\<close> decodes as Inline with length \<open>d\<close> when
  \<open>d \<le> 23\<close>, as Static when \<open>d = 24\<close> and as Heap when \<open>d \<ge> 25\<close>; the summary provider
  takes the branch of the same name.
\<close>

theorem SmolStr_discriminant_selects_variant:
  assumes "SmolStr_discriminant valobj = Some d"
  shows
    "(d \<le> 23 \<longrightarrow>
        variant_name (snd (SmolStr_update h valobj)) = ''Inline''
        \<and> length_str (snd (SmolStr_update h valobj)) = d
        \<and> SmolStrSummaryProvider h valobj = summary_Inline h (SmolStr_variants valobj) d)
     \<and> (d = 24 \<longrightarrow>
        variant_name (snd (SmolStr_update h valobj)) = ''Static''
        \<and> SmolStrSummaryProvider h valobj = summary_Static h (SmolStr_variant24 valobj))
     \<and> (25 \<le> d \<longrightarrow>
        variant_name (snd (SmolStr_update h valobj)) = ''Heap''
        \<and> SmolStrSummaryProvider h valobj = summary_Heap h (SmolStr_variants valobj))"
  by (simp add: SmolStr_update_dispatch [OF assms] SmolStrSummaryProvider_dispatch [OF assms]
      update_Inline_fields update_Static_fields update_Heap_fields)

theorem SmolStr_discriminant_selects_variant_witness:
  "SmolStr_discriminant (ex_inline 5 4096) = Some 5 \<and> (5::nat) \<le> 23
   \<and> variant_name (snd (SmolStr_update ex_host (ex_inline 5 4096))) = ''Inline''
   \<and> length_str (snd (SmolStr_update ex_host (ex_inline 5 4096))) = 5
   \<and> SmolStr_discriminant (ex_static 8208 3) = Some 24
   \<and> variant_name (snd (SmolStr_update ex_host (ex_static 8208 3))) = ''Static''
   \<and> SmolStr_discriminant (ex_heap 30 8192 3) = Some 30 \<and> (25::nat) \<le> 30
   \<and> variant_name (snd (SmolStr_update ex_host (ex_heap 30 8192 3))) = ''Heap''"
  using SmolStr_discriminant_selects_variant [of "ex_inline 5 4096" 5 ex_host]
    SmolStr_discriminant_selects_variant [of "ex_static 8208 3" 24 ex_host]
    SmolStr_discriminant_selects_variant [of "ex_heap 30 8192 3" 30 ex_host]
  by (simp add: ex_discriminant)

text \<open>
  C3, as the code has it. A string decoded as Heap has its content at \<open>pointer + 16\<close>
  when its decoded length is not 0. With a decoded length of 0 (an empty heap string, or
  one whose fields could not be read) the content address stays 0.
\<close>

theorem SmolStr_Heap_content_address:
  assumes "variant_name (snd (SmolStr_update h valobj)) = ''Heap''"
  shows "content_address (snd (SmolStr_update h valobj)) =
     (if length_str (snd (SmolStr_update h valobj)) = 0 then 0
      else pointer (snd (SmolStr_update h valobj)) + 16)"
proof (cases "SmolStr_discriminant valobj")
  case None
  with assms show ?thesis
    by (simp add: SmolStr_update_no_discriminant SmolStr_init_def)
next
  case (Some d)
  with assms show ?thesis
    by (simp add: SmolStr_update_dispatch [OF Some] update_Inline_fields update_Static_fields
        update_Heap_fields split: if_splits)
qed

theorem SmolStr_Heap_content_address_witness:
  "variant_name (snd (SmolStr_update ex_host (ex_heap 25 8192 3))) = ''Heap''
   \<and> content_address (snd (SmolStr_update ex_host (ex_heap 25 8192 3))) = 8192 + 16
   \<and> variant_name (snd (SmolStr_update ex_host (ex_heap 25 8192 0))) = ''Heap''
   \<and> content_address (snd (SmolStr_update ex_host (ex_heap 25 8192 0))) = 0"
  using SmolStr_Heap_content_address [of ex_host "ex_heap 25 8192 3"]
    SmolStr_Heap_content_address [of ex_host "ex_heap 25 8192 0"]
  by (simp add: ex_heap_update ex_heap_empty_update)

text \<open>
  The claim as the specification states it, that a Heap string always has its content
  at \<open>pointer + 16\<close>, also with length 0, fails for the empty heap string at 8192.
\<close>

theorem SmolStr_Heap_content_address_counterexample:
  "variant_name (snd (SmolStr_update ex_host (ex_heap 25 8192 0))) = ''Heap''
   \<and> length_str (snd (SmolStr_update ex_host (ex_heap 25 8192 0))) = 0
   \<and> pointer (snd (SmolStr_update ex_host (ex_heap 25 8192 0))) = 8192
   \<and> content_address (snd (SmolStr_update ex_host (ex_heap 25 8192 0))) = 0
   \<and> content_address (snd (SmolStr_update ex_host (ex_heap 25 8192 0)))
       \<noteq> pointer (snd (SmolStr_update ex_host (ex_heap 25 8192 0))) + 16"
  by (simp add: ex_heap_empty_update)

text \<open>
  When the decoded length is 0, the content is empty and \<^verbatim>\<open>update\<close> has read no
  memory. Outside the Static branch the content address is then 0 as well.
\<close>

lemma SmolStr_length_0:
  assumes "length_str (snd (SmolStr_update h valobj)) = 0"
  shows "content (snd (SmolStr_update h valobj)) = []
     \<and> fst (SmolStr_update h valobj) = []
     \<and> (variant_name (snd (SmolStr_update h valobj)) \<noteq> ''Static''
          \<longrightarrow> content_address (snd (SmolStr_update h valobj)) = 0)"
proof (cases "SmolStr_discriminant valobj")
  case None
  then show ?thesis
    by (simp add: SmolStr_update_no_discriminant SmolStr_init_def)
next
  case (Some d)
  consider "d \<le> 23" | "d = 24" | "25 \<le> d"
    by linarith
  then show ?thesis
  proof cases
    case 1
    with assms have "d = 0"
      by (simp add: SmolStr_update_dispatch [OF Some] update_Inline_fields)
    with 1 show ?thesis
      by (simp add: SmolStr_update_dispatch [OF Some] update_Inline_empty)
  next
    case 2
    with assms show ?thesis
      by (simp add: SmolStr_update_dispatch [OF Some] update_Static_fields update_Static_empty)
  next
    case 3
    with assms show ?thesis
      by (simp add: SmolStr_update_dispatch [OF Some] update_Heap_fields update_Heap_empty)
  qed
qed

lemma ex_inline_empty_update:
  "SmolStr_update h (ex_inline 0 4096) =
     ([],
      \<lparr>variant_name = ''Inline'', length_str = 0, content = [], pointer = 0,
       content_address = 0\<rparr>)"
  by (simp add: SmolStr_update_dispatch [OF ex_discriminant(1)] update_Inline_empty)

lemma ex_static_empty_summary:
  "SmolStrSummaryProvider h (ex_static 8208 0) = dquote @ dquote"
  by (simp add: SmolStrSummaryProvider_def summary_Static_def Let_def ex_static_def nav_defs)

text \<open>
  C4. A decoded length of 0 is to give an empty content, a content address of 0 and no
  read, for every variant. The Inline and the Heap branch of \<^verbatim>\<open>update\<close> look at the
  length before they set the address, and the Static branch of the summary provider
  looks at it before it takes the pointer. The Static branch of \<^verbatim>\<open>update\<close> sets the
  address first: the empty static string at 8208 is decoded with an empty content and
  without a read, but with the content address 8208, where the empty inline string and
  the empty heap string at 8192 both have 0.
\<close>

theorem SmolStr_empty_Static_address:
  "SmolStr_update h (ex_static 8208 0) =
     ([],
      \<lparr>variant_name = ''Static'', length_str = 0, content = [], pointer = 8208,
       content_address = 8208\<rparr>)
   \<and> length_str (snd (SmolStr_update h (ex_static 8208 0))) = 0
   \<and> content_address (snd (SmolStr_update h (ex_static 8208 0))) \<noteq> 0
   \<and> length_str (snd (SmolStr_update h (ex_inline 0 4096))) = 0
   \<and> content_address (snd (SmolStr_update h (ex_inline 0 4096))) = 0
   \<and> length_str (snd (SmolStr_update h (ex_heap 25 8192 0))) = 0
   \<and> content_address (snd (SmolStr_update h (ex_heap 25 8192 0))) = 0
   \<and> SmolStrSummaryProvider h (ex_static 8208 0) = dquote @ dquote"
  by (simp add: ex_static_empty_update ex_inline_empty_update ex_heap_empty_update
      ex_static_empty_summary)

subsection \<open>Decoding a small vector\<close>

lemma and_one_odd: "(r AND 1 = 1) = odd r" for r :: nat
  by (simp add: and_one_eq mod_2_eq_odd)

text \<open>Without its raw length a vector decodes to the initial fields.\<close>

lemma SmallVec_update_no_length:
  assumes "SmallVec_raw_length valobj = None"
  shows "SmallVec_update valobj = SmallVec_init"
  using assms
  by (simp add: SmallVec_update_def SmallVec_raw_length_def Let_def split: if_splits)

lemma raw_length_fields:
  assumes "SmallVec_raw_length valobj = Some r"
  shows "IsValid (GetChildMemberWithName (GetNonSyntheticValue valobj) ''len'')"
    "IsValid (GetChildMemberWithName
       (GetChildMemberWithName (GetNonSyntheticValue valobj) ''len'') ''__0'')"
    "GetValueAsUnsigned (GetChildMemberWithName
       (GetChildMemberWithName (GetNonSyntheticValue valobj) ''len'') ''__0'') = r"
proof -
  show v: "IsValid (GetChildMemberWithName
       (GetChildMemberWithName (GetNonSyntheticValue valobj) ''len'') ''__0'')"
    using assms by (simp add: SmallVec_raw_length_def Let_def split: if_splits)
  show "GetValueAsUnsigned (GetChildMemberWithName
       (GetChildMemberWithName (GetNonSyntheticValue valobj) ''len'') ''__0'') = r"
    using assms by (simp add: SmallVec_raw_length_def Let_def split: if_splits)
  show "IsValid (GetChildMemberWithName (GetNonSyntheticValue valobj) ''len'')"
    using v by (rule IsValid_member)
qed

text \<open>The two storage branches, in terms of the address they look for.\<close>

lemma update_heap_eq:
  "SmallVec_update_heap (GetChildMemberWithName (GetNonSyntheticValue valobj) ''raw'') s =
     (case SmallVec_storage_address valobj True of
        None \<Rightarrow> s\<lparr>length_vec := 0\<rparr>
      | Some a \<Rightarrow> if a = 0 then s\<lparr>heap_ptr := 0, length_vec := 0\<rparr> else s\<lparr>heap_ptr := a\<rparr>)"
  by (simp add: SmallVec_update_heap_def SmallVec_storage_address_def Let_def)

lemma update_inline_eq:
  "SmallVec_update_inline (GetChildMemberWithName (GetNonSyntheticValue valobj) ''raw'') s =
     (case SmallVec_storage_address valobj False of
        None \<Rightarrow> s\<lparr>length_vec := 0\<rparr>
      | Some a \<Rightarrow>
          if a = 0 then s\<lparr>inline_data_address := 0, length_vec := 0\<rparr>
          else s\<lparr>inline_data_address := a\<rparr>)"
  by (simp add: SmallVec_update_inline_def SmallVec_storage_address_def Let_def)

lemma storage_address_raw:
  "\<not> IsValid (GetChildMemberWithName (GetNonSyntheticValue valobj) ''raw'') \<Longrightarrow>
     SmallVec_storage_address valobj heap = None"
  by (simp add: SmallVec_storage_address_def Let_def)

text \<open>What \<^verbatim>\<open>update\<close> leaves in the fields of a vector whose raw length is \<open>r\<close>.\<close>

lemma SmallVec_update_eq:
  assumes "SmallVec_raw_length valobj = Some r"
  shows "SmallVec_update valobj =
     (let ty = GetTemplateArgumentType0 (GetNonSyntheticValue valobj);
          s = SmallVec_init\<lparr>is_heap := odd r, element_type := Some ty\<rparr>
      in if \<not> Type_IsValid ty then s
         else if GetByteSize ty = 0 then s
         else
           (case SmallVec_storage_address valobj (odd r) of
              None \<Rightarrow> s\<lparr>element_size := GetByteSize ty\<rparr>
            | Some a \<Rightarrow>
                if a = 0 then s\<lparr>element_size := GetByteSize ty\<rparr>
                else if odd r then
                  s\<lparr>element_size := GetByteSize ty, heap_ptr := a, length_vec := drop_bit 1 r\<rparr>
                else
                  s\<lparr>element_size := GetByteSize ty, inline_data_address := a,
                    length_vec := drop_bit 1 r\<rparr>))"
proof (cases "IsValid (GetChildMemberWithName (GetNonSyntheticValue valobj) ''raw'')")
  case True
  then show ?thesis
    using raw_length_fields [OF assms]
    unfolding SmallVec_update_def and_one_odd
    by (cases "odd r")
      (simp_all add: Let_def update_heap_eq update_inline_eq SmallVec_init_def
        split: option.splits)
next
  case False
  then show ?thesis
    using raw_length_fields [OF assms]
    unfolding SmallVec_update_def and_one_odd
    by (simp add: Let_def storage_address_raw SmallVec_init_def)
qed

lemma SmallVecSummaryProvider_eq:
  "SmallVecSummaryProvider valobj =
     (case SmallVec_raw_length valobj of
        None \<Rightarrow> ''size=?''
      | Some r \<Rightarrow> ''size='' @ format_d (int (drop_bit 1 r)))"
  by (auto simp add: SmallVecSummaryProvider_def SmallVec_raw_length_def Let_def
      dest: IsValid_member)

text \<open>Evaluating the examples.\<close>

lemma ex_raw_length:
  "SmallVec_raw_length (ex_vec_heap r ty p) = Some r"
  "SmallVec_raw_length (ex_vec_inline r ty a) = Some r"
  "SmallVec_raw_length (ex_vec_no_raw r ty) = Some r"
  "SmallVec_raw_length invalid_SBValue = None"
  by (simp_all add: SmallVec_raw_length_def Let_def ex_vec_heap_def ex_vec_inline_def
      ex_vec_no_raw_def nav_defs)

lemma ex_storage_address:
  "SmallVec_storage_address (ex_vec_heap r ty p) True = Some p"
  "SmallVec_storage_address (ex_vec_inline r ty a) False = Some a"
  "SmallVec_storage_address (ex_vec_no_raw r ty) heap = None"
  by (simp_all add: SmallVec_storage_address_def Let_def ex_vec_heap_def ex_vec_inline_def
      ex_vec_no_raw_def nav_defs)

lemma ex_element_type:
  "GetTemplateArgumentType0 (GetNonSyntheticValue (ex_vec_heap r ty p)) = ty"
  "GetTemplateArgumentType0 (GetNonSyntheticValue (ex_vec_inline r ty a)) = ty"
  "GetTemplateArgumentType0 (GetNonSyntheticValue (ex_vec_no_raw r ty)) = ty"
  by (simp_all add: ex_vec_heap_def ex_vec_inline_def ex_vec_no_raw_def nav_defs)

lemma ex_vec_heap_update:
  "SmallVec_update (ex_vec_heap 7 (DebugType True 4) 4096) =
     \<lparr>length_vec = 3, is_heap = True, heap_ptr = 4096, inline_data_address = 0,
      element_size = 4, element_type = Some (DebugType True 4)\<rparr>"
  by (simp add: SmallVec_update_defs ex_vec_heap_def nav_defs)

lemma ex_vec_inline_update:
  "SmallVec_update (ex_vec_inline 6 (DebugType True 4) 4096) =
     \<lparr>length_vec = 3, is_heap = False, heap_ptr = 0, inline_data_address = 4096,
      element_size = 4, element_type = Some (DebugType True 4)\<rparr>"
  by (simp add: SmallVec_update_defs ex_vec_inline_def nav_defs)

lemma ex_vec_invalid_type_update:
  "SmallVec_update (ex_vec_heap 7 (DebugType False 4) 4096) =
     \<lparr>length_vec = 0, is_heap = True, heap_ptr = 0, inline_data_address = 0,
      element_size = 0, element_type = Some (DebugType False 4)\<rparr>"
  by (simp add: SmallVec_update_defs ex_vec_heap_def nav_defs)

lemma ex_vec_no_raw_update:
  "SmallVec_update (ex_vec_no_raw 6 (DebugType True 4)) =
     \<lparr>length_vec = 0, is_heap = False, heap_ptr = 0, inline_data_address = 0,
      element_size = 4, element_type = Some (DebugType True 4)\<rparr>"
  by (simp add: SmallVec_update_defs ex_vec_no_raw_def nav_defs)

lemma drop_bit_examples: "drop_bit 1 (7::nat) = 3" "drop_bit 1 (6::nat) = 3"
  by (simp_all add: drop_bit_eq_div)

text \<open>
  C2, as the code has it. For a small vector whose raw length field is \<open>r\<close>, the storage
  is Heap exactly when \<open>r\<close> is odd, and the summary prints \<open>r >> 1\<close>. The decoded count
  is \<open>r >> 1\<close> when the element type is valid with a size other than 0 and the address of
  the storage is found and is not 0; otherwise it is 0.
\<close>

theorem SmallVec_raw_length_decoded:
  assumes "SmallVec_raw_length valobj = Some r"
  shows "is_heap (SmallVec_update valobj) = odd r
     \<and> length_vec (SmallVec_update valobj) =
         (if Type_IsValid (GetTemplateArgumentType0 (GetNonSyntheticValue valobj))
             \<and> GetByteSize (GetTemplateArgumentType0 (GetNonSyntheticValue valobj)) \<noteq> 0
             \<and> (\<exists>a. SmallVec_storage_address valobj (odd r) = Some a \<and> a \<noteq> 0)
          then drop_bit 1 r else 0)
     \<and> SmallVecSummaryProvider valobj = ''size='' @ format_d (int (drop_bit 1 r))"
  by (simp add: SmallVec_update_eq [OF assms] SmallVecSummaryProvider_eq assms Let_def
      SmallVec_init_def split: option.splits)

theorem SmallVec_raw_length_decoded_witness:
  "SmallVec_raw_length (ex_vec_heap 7 (DebugType True 4) 4096) = Some 7
   \<and> is_heap (SmallVec_update (ex_vec_heap 7 (DebugType True 4) 4096))
   \<and> length_vec (SmallVec_update (ex_vec_heap 7 (DebugType True 4) 4096)) = 3
   \<and> SmallVecSummaryProvider (ex_vec_heap 7 (DebugType True 4) 4096) = ''size=3''
   \<and> SmallVec_raw_length (ex_vec_inline 6 (DebugType True 4) 4096) = Some 6
   \<and> \<not> is_heap (SmallVec_update (ex_vec_inline 6 (DebugType True 4) 4096))
   \<and> length_vec (SmallVec_update (ex_vec_inline 6 (DebugType True 4) 4096)) = 3"
  using SmallVec_raw_length_decoded [of "ex_vec_heap 7 (DebugType True 4) 4096" 7]
    SmallVec_raw_length_decoded [of "ex_vec_inline 6 (DebugType True 4) 4096" 6]
  by (simp add: ex_raw_length ex_storage_address ex_element_type drop_bit_examples format_simps)

text \<open>
  The claim as the specification states it, that the decoded count is \<open>r >> 1\<close> for
  every vector, fails for a heap vector of raw length 7 whose element type is invalid.
\<close>

theorem SmallVec_raw_length_decoded_counterexample:
  "SmallVec_raw_length (ex_vec_heap 7 (DebugType False 4) 4096) = Some 7
   \<and> drop_bit 1 (7::nat) = 3
   \<and> length_vec (SmallVec_update (ex_vec_heap 7 (DebugType False 4) 4096)) = 0
   \<and> length_vec (SmallVec_update (ex_vec_heap 7 (DebugType False 4) 4096)) \<noteq> drop_bit 1 7"
  by (simp add: ex_raw_length ex_vec_invalid_type_update drop_bit_examples)

text \<open>
  C6. A decoded vector with a count other than 0 has a valid element type with a size
  other than 0, and its base address is the address found for its storage and is not 0.
  Conversely an invalid element type, an element size of 0, and a storage address that is
  not found or is 0 each make the count 0.
\<close>

theorem SmallVec_nonempty_readable:
  "(length_vec (SmallVec_update valobj) \<noteq> 0 \<longrightarrow>
      element_type (SmallVec_update valobj) =
        Some (GetTemplateArgumentType0 (GetNonSyntheticValue valobj))
      \<and> Type_IsValid (GetTemplateArgumentType0 (GetNonSyntheticValue valobj))
      \<and> element_size (SmallVec_update valobj) =
          GetByteSize (GetTemplateArgumentType0 (GetNonSyntheticValue valobj))
      \<and> element_size (SmallVec_update valobj) \<noteq> 0
      \<and> SmallVec_storage_address valobj (is_heap (SmallVec_update valobj)) =
          Some (base_address (SmallVec_update valobj))
      \<and> base_address (SmallVec_update valobj) \<noteq> 0)
   \<and> (\<not> Type_IsValid (GetTemplateArgumentType0 (GetNonSyntheticValue valobj))
        \<or> GetByteSize (GetTemplateArgumentType0 (GetNonSyntheticValue valobj)) = 0
        \<or> SmallVec_storage_address valobj (is_heap (SmallVec_update valobj)) = None
        \<or> SmallVec_storage_address valobj (is_heap (SmallVec_update valobj)) = Some 0
      \<longrightarrow> length_vec (SmallVec_update valobj) = 0)"
proof (cases "SmallVec_raw_length valobj")
  case None
  then show ?thesis
    by (simp add: SmallVec_update_no_length SmallVec_init_def)
next
  case (Some r)
  show ?thesis
    by (simp add: SmallVec_update_eq [OF Some] Let_def SmallVec_init_def base_address_def
        split: option.splits)
qed

theorem SmallVec_nonempty_readable_witness:
  "length_vec (SmallVec_update (ex_vec_heap 7 (DebugType True 4) 4096)) \<noteq> 0
   \<and> element_type (SmallVec_update (ex_vec_heap 7 (DebugType True 4) 4096)) =
       Some (DebugType True 4)
   \<and> element_size (SmallVec_update (ex_vec_heap 7 (DebugType True 4) 4096)) = 4
   \<and> base_address (SmallVec_update (ex_vec_heap 7 (DebugType True 4) 4096)) = 4096
   \<and> \<not> Type_IsValid (GetTemplateArgumentType0
         (GetNonSyntheticValue (ex_vec_heap 7 (DebugType False 4) 4096)))
   \<and> length_vec (SmallVec_update (ex_vec_heap 7 (DebugType False 4) 4096)) = 0
   \<and> SmallVec_storage_address (ex_vec_no_raw 6 (DebugType True 4))
       (is_heap (SmallVec_update (ex_vec_no_raw 6 (DebugType True 4)))) = None
   \<and> length_vec (SmallVec_update (ex_vec_no_raw 6 (DebugType True 4))) = 0"
proof -
  have n: "length_vec (SmallVec_update (ex_vec_heap 7 (DebugType True 4) 4096)) \<noteq> 0"
    by (simp add: ex_vec_heap_update)
  have h: "is_heap (SmallVec_update (ex_vec_heap 7 (DebugType True 4) 4096))"
    by (simp add: ex_vec_heap_update)
  show ?thesis
    using SmallVec_nonempty_readable [of "ex_vec_heap 7 (DebugType True 4) 4096"]
      SmallVec_nonempty_readable [of "ex_vec_heap 7 (DebugType False 4) 4096"]
      SmallVec_nonempty_readable [of "ex_vec_no_raw 6 (DebugType True 4)"]
    by (simp add: n h ex_element_type ex_storage_address)
qed

text \<open>
  C7. For a decoded vector and an index \<open>i\<close> with \<open>0 \<le> i < length\<close>, child \<open>i\<close> is the value
  the host creates, named \<^verbatim>\<open>[i]\<close> and of the element type, at the address
  \<open>base_address + i * element_size\<close>. The base address is the heap pointer for heap
  storage and the address of the inline array for inline storage. Nothing is read or
  copied. (A child the host fails to create is \<^verbatim>\<open>None\<close>.)
\<close>

theorem SmallVec_child_address:
  assumes "0 \<le> i" and "i < int (length_vec (SmallVec_update valobj))"
  shows "SmallVec_get_child_at_index h (SmallVec_update valobj) i =
       catch (CreateValueFromAddress h (''['' @ format_d i @ '']'')
                (base_address (SmallVec_update valobj)
                   + nat i * element_size (SmallVec_update valobj))
                (GetTemplateArgumentType0 (GetNonSyntheticValue valobj)))
     \<and> base_address (SmallVec_update valobj) =
         (if is_heap (SmallVec_update valobj) then heap_ptr (SmallVec_update valobj)
          else inline_data_address (SmallVec_update valobj))
     \<and> SmallVec_storage_address valobj (is_heap (SmallVec_update valobj)) =
         Some (base_address (SmallVec_update valobj))"
proof (cases "SmallVec_raw_length valobj")
  case None
  with assms show ?thesis
    by (simp add: SmallVec_update_no_length SmallVec_init_def)
next
  case (Some r)
  show ?thesis
    using assms
    by (simp add: SmallVec_update_eq [OF Some] Let_def SmallVec_init_def base_address_def
        SmallVec_get_child_at_index_def split: option.splits if_splits)
qed

theorem SmallVec_child_address_witness:
  "(0::int) \<le> 2 \<and> 2 < int (length_vec (SmallVec_update (ex_vec_heap 7 (DebugType True 4) 4096)))
   \<and> SmallVec_get_child_at_index ex_host
       (SmallVec_update (ex_vec_heap 7 (DebugType True 4) 4096)) 2 =
     Some (SBValue True 0 4104 (DebugType True 4) [])
   \<and> SmallVec_get_child_at_index ex_host
       (SmallVec_update (ex_vec_inline 6 (DebugType True 4) 4096)) 1 =
     Some (SBValue True 0 4100 (DebugType True 4) [])"
  using SmallVec_child_address [of 2 "ex_vec_heap 7 (DebugType True 4) 4096" ex_host]
    SmallVec_child_address [of 1 "ex_vec_inline 6 (DebugType True 4) 4096" ex_host]
  by (simp add: ex_vec_heap_update ex_vec_inline_update base_address_def ex_element_type
      ex_host_def)

subsection \<open>Values with a missing field\<close>

text \<open>
  A branch of the string providers that does not find one of its fields returns the
  empty summary, and leaves the fields as they were when the branch was entered.
\<close>

lemma Inline_missing:
  assumes "d \<noteq> 0"
    and "\<not> list_all IsValid
       [GetChildMemberWithName variants ''$variant$'',
        GetChildMemberWithName (GetChildMemberWithName variants ''$variant$'') ''value'',
        GetChildMemberWithName
          (GetChildMemberWithName (GetChildMemberWithName variants ''$variant$'') ''value'')
          ''buf'']"
  shows "summary_Inline h variants d = dquote @ dquote"
    "SmolStr_update_Inline h variants d SmolStr_init =
       ([], SmolStr_init\<lparr>variant_name := ''Inline'', length_str := d\<rparr>)"
  using assms
  by (auto simp add: summary_Inline_def SmolStr_update_Inline_def Let_def)

lemma Static_missing:
  assumes "\<not> list_all IsValid
       [GetChildMemberWithName variant24 ''value'',
        GetChildMemberWithName (GetChildMemberWithName variant24 ''value'') ''__0'',
        GetChildMemberWithName
          (GetChildMemberWithName (GetChildMemberWithName variant24 ''value'') ''__0'')
          ''data_ptr'',
        GetChildMemberWithName
          (GetChildMemberWithName (GetChildMemberWithName variant24 ''value'') ''__0'')
          ''length'']"
  shows "summary_Static h variant24 = dquote @ dquote"
    "SmolStr_update_Static h variant24 SmolStr_init =
       ([], SmolStr_init\<lparr>variant_name := ''Static'', length_str := 0\<rparr>)"
  using assms
  by (auto simp add: summary_Static_def SmolStr_update_Static_def SmolStr_init_def Let_def)

lemma Heap_missing:
  assumes "\<not> list_all IsValid
       [GetChildMemberWithName variants ''$variant$25'',
        GetChildMemberWithName (GetChildMemberWithName variants ''$variant$25'') ''value'',
        GetChildMemberWithName
          (GetChildMemberWithName (GetChildMemberWithName variants ''$variant$25'') ''value'')
          ''__0'',
        GetChildMemberWithName
          (GetChildMemberWithName
             (GetChildMemberWithName (GetChildMemberWithName variants ''$variant$25'') ''value'')
             ''__0'') ''ptr'',
        GetChildMemberWithName
          (GetChildMemberWithName
             (GetChildMemberWithName
                (GetChildMemberWithName (GetChildMemberWithName variants ''$variant$25'') ''value'')
                ''__0'') ''ptr'') ''pointer'',
        GetChildMemberWithName
          (GetChildMemberWithName
             (GetChildMemberWithName
                (GetChildMemberWithName
                   (GetChildMemberWithName (GetChildMemberWithName variants ''$variant$25'')
                      ''value'') ''__0'') ''ptr'') ''pointer'') ''data_ptr'',
        GetChildMemberWithName
          (GetChildMemberWithName
             (GetChildMemberWithName
                (GetChildMemberWithName
                   (GetChildMemberWithName (GetChildMemberWithName variants ''$variant$25'')
                      ''value'') ''__0'') ''ptr'') ''pointer'') ''length'']"
  shows "summary_Heap h variants = dquote @ dquote"
    "SmolStr_update_Heap h variants SmolStr_init =
       ([], SmolStr_init\<lparr>variant_name := ''Heap'', length_str := 0\<rparr>)"
  using assms
  by (auto simp add: summary_Heap_def SmolStr_update_Heap_def SmolStr_init_def Let_def)

text \<open>The same for a small string as a whole, and for a small vector.\<close>

lemma SmolStr_missing:
  assumes "\<not> list_all IsValid (SmolStr_required valobj)"
  shows "SmolStrSummaryProvider h valobj = dquote @ dquote"
    "SmolStr_update h valobj =
       ([], SmolStr_init
          \<lparr>variant_name :=
             (case SmolStr_discriminant valobj of
                None \<Rightarrow> []
              | Some d \<Rightarrow> if d \<le> 23 then ''Inline'' else if d = 24 then ''Static'' else ''Heap''),
           length_str :=
             (case SmolStr_discriminant valobj of
                None \<Rightarrow> 0
              | Some d \<Rightarrow> if d \<le> 23 then d else 0)\<rparr>)"
proof -
  have "SmolStrSummaryProvider h valobj = dquote @ dquote
     \<and> SmolStr_update h valobj =
       ([], SmolStr_init
          \<lparr>variant_name :=
             (case SmolStr_discriminant valobj of
                None \<Rightarrow> []
              | Some d \<Rightarrow> if d \<le> 23 then ''Inline'' else if d = 24 then ''Static'' else ''Heap''),
           length_str :=
             (case SmolStr_discriminant valobj of
                None \<Rightarrow> 0
              | Some d \<Rightarrow> if d \<le> 23 then d else 0)\<rparr>)"
  proof (cases "SmolStr_discriminant valobj")
    case None
    then show ?thesis
      by (simp add: SmolStr_update_no_discriminant SmolStrSummaryProvider_no_discriminant
          SmolStr_init_def)
  next
    case (Some d)
    note f = discriminant_fields [OF Some]
    consider "d \<le> 23" | "d = 24" | "25 \<le> d"
      by linarith
    then show ?thesis
    proof cases
      case 1
      with assms f have "d \<noteq> 0"
        by (auto simp add: SmolStr_required_def Let_def split: if_splits)
      moreover from assms f 1 \<open>d \<noteq> 0\<close> have "\<not> list_all IsValid
         [GetChildMemberWithName (SmolStr_variants valobj) ''$variant$'',
          GetChildMemberWithName
            (GetChildMemberWithName (SmolStr_variants valobj) ''$variant$'') ''value'',
          GetChildMemberWithName
            (GetChildMemberWithName
               (GetChildMemberWithName (SmolStr_variants valobj) ''$variant$'') ''value'')
            ''buf'']"
        by (simp add: SmolStr_required_def Let_def)
      ultimately show ?thesis
        using 1
        by (simp add: Some SmolStr_update_dispatch [OF Some]
            SmolStrSummaryProvider_dispatch [OF Some] Inline_missing)
    next
      case 2
      with assms f have "\<not> list_all IsValid
         [GetChildMemberWithName (SmolStr_variant24 valobj) ''value'',
          GetChildMemberWithName
            (GetChildMemberWithName (SmolStr_variant24 valobj) ''value'') ''__0'',
          GetChildMemberWithName
            (GetChildMemberWithName
               (GetChildMemberWithName (SmolStr_variant24 valobj) ''value'') ''__0'')
            ''data_ptr'',
          GetChildMemberWithName
            (GetChildMemberWithName
               (GetChildMemberWithName (SmolStr_variant24 valobj) ''value'') ''__0'')
            ''length'']"
        by (simp add: SmolStr_required_def Let_def)
      then show ?thesis
        using 2
        by (simp add: Some SmolStr_update_dispatch [OF Some]
            SmolStrSummaryProvider_dispatch [OF Some] Static_missing)
    next
      case 3
      with assms f have "\<not> list_all IsValid
         [GetChildMemberWithName (SmolStr_variants valobj) ''$variant$25'',
          GetChildMemberWithName
            (GetChildMemberWithName (SmolStr_variants valobj) ''$variant$25'') ''value'',
          GetChildMemberWithName
            (GetChildMemberWithName
               (GetChildMemberWithName (SmolStr_variants valobj) ''$variant$25'') ''value'')
            ''__0'',
          GetChildMemberWithName
            (GetChildMemberWithName
               (GetChildMemberWithName
                  (GetChildMemberWithName (SmolStr_variants valobj) ''$variant$25'') ''value'')
               ''__0'') ''ptr'',
          GetChildMemberWithName
            (GetChildMemberWithName
               (GetChildMemberWithName
                  (GetChildMemberWithName
                     (GetChildMemberWithName (SmolStr_variants valobj) ''$variant$25'') ''value'')
                  ''__0'') ''ptr'') ''pointer'',
          GetChildMemberWithName
            (GetChildMemberWithName
               (GetChildMemberWithName
                  (GetChildMemberWithName
                     (GetChildMemberWithName
                        (GetChildMemberWithName (SmolStr_variants valobj) ''$variant$25'')
                        ''value'') ''__0'') ''ptr'') ''pointer'') ''data_ptr'',
          GetChildMemberWithName
            (GetChildMemberWithName
               (GetChildMemberWithName
                  (GetChildMemberWithName
                     (GetChildMemberWithName
                        (GetChildMemberWithName (SmolStr_variants valobj) ''$variant$25'')
                        ''value'') ''__0'') ''ptr'') ''pointer'') ''length'']"
        by (simp add: SmolStr_required_def Let_def)
      then show ?thesis
        using 3
        by (simp add: Some SmolStr_update_dispatch [OF Some]
            SmolStrSummaryProvider_dispatch [OF Some] Heap_missing)
    qed
  qed
  then show "SmolStrSummaryProvider h valobj = dquote @ dquote"
    and "SmolStr_update h valobj =
       ([], SmolStr_init
          \<lparr>variant_name :=
             (case SmolStr_discriminant valobj of
                None \<Rightarrow> []
              | Some d \<Rightarrow> if d \<le> 23 then ''Inline'' else if d = 24 then ''Static'' else ''Heap''),
           length_str :=
             (case SmolStr_discriminant valobj of
                None \<Rightarrow> 0
              | Some d \<Rightarrow> if d \<le> 23 then d else 0)\<rparr>)"
    by simp_all
qed

lemma storage_address_found:
  assumes "SmallVec_raw_length valobj = Some r"
    and "SmallVec_storage_address valobj (odd r) = Some a"
  shows "list_all IsValid (SmallVec_required valobj)"
proof (cases "odd r")
  case True
  with assms(2) have p: "IsValid (GetChildMemberWithName
      (GetChildMemberWithName
         (GetChildMemberWithName
            (GetChildMemberWithName (GetNonSyntheticValue valobj) ''raw'') ''heap'') ''__0'')
      ''pointer'')"
    by (simp add: SmallVec_storage_address_def Let_def split: if_splits)
  note w = IsValid_member [OF p]
  note h = IsValid_member [OF w]
  note raw = IsValid_member [OF h]
  from True p w h raw raw_length_fields [OF assms(1)] show ?thesis
    unfolding SmallVec_required_def and_one_odd by (simp add: Let_def)
next
  case False
  with assms(2) have p: "IsValid (GetChildMemberWithName
      (GetChildMemberWithName
         (GetChildMemberWithName
            (GetChildMemberWithName
               (GetChildMemberWithName (GetNonSyntheticValue valobj) ''raw'') ''inline'')
            ''value'') ''value'') ''value'')"
    by (simp add: SmallVec_storage_address_def Let_def split: if_splits)
  note v2 = IsValid_member [OF p]
  note v1 = IsValid_member [OF v2]
  note i = IsValid_member [OF v1]
  note raw = IsValid_member [OF i]
  from False p v2 v1 i raw raw_length_fields [OF assms(1)] show ?thesis
    unfolding SmallVec_required_def and_one_odd by (simp add: Let_def)
qed

lemma SmallVec_missing:
  assumes "\<not> list_all IsValid (SmallVec_required valobj)"
  shows "length_vec (SmallVec_update valobj) = 0"
proof (cases "SmallVec_raw_length valobj")
  case None
  then show ?thesis
    by (simp add: SmallVec_update_no_length SmallVec_init_def)
next
  case (Some r)
  with assms have "SmallVec_storage_address valobj (odd r) = None"
    using storage_address_found [OF Some] by (cases "SmallVec_storage_address valobj (odd r)") auto
  then show ?thesis
    by (simp add: SmallVec_update_eq [OF Some] Let_def SmallVec_init_def)
qed

text \<open>Evaluating the examples.\<close>

lemma ex_required:
  "\<not> list_all IsValid (SmolStr_required invalid_SBValue)"
  "\<not> list_all IsValid (SmolStr_required ex_heap_unreadable)"
  "\<not> list_all IsValid (SmallVec_required invalid_SBValue)"
  "\<not> list_all IsValid (SmallVec_required (ex_vec_no_raw r ty))"
  by (simp_all add: SmolStr_required_def SmallVec_required_def SmolStr_variants_def
      SmolStr_variant24_def Let_def ex_heap_unreadable_def ex_vec_no_raw_def nav_defs)

text \<open>
  C5, as the code has it. When a field the decoding goes through is missing or invalid,
  the providers return plain values (nothing is raised) and read no memory. The string
  summary is \<^verbatim>\<open>""\<close>, the string's content is empty, and the string provider still
  counts its three fixed children, or four when the discriminant had already selected
  Static or Heap. The vector has no children, and its summary is \<^verbatim>\<open>size=?\<close> when the
  raw length is missing and otherwise \<^verbatim>\<open>size=\<close> followed by the raw length shifted
  right by one bit.
\<close>

theorem Missing_field_degrades:
  "(\<not> list_all IsValid (SmolStr_required valobj) \<longrightarrow>
      SmolStrSummaryProvider h valobj = dquote @ dquote
      \<and> fst (SmolStr_update h valobj) = []
      \<and> content (snd (SmolStr_update h valobj)) = []
      \<and> SmolStr_has_children (snd (SmolStr_update h valobj))
      \<and> SmolStr_num_children (snd (SmolStr_update h valobj)) =
          (case SmolStr_discriminant valobj of
             None \<Rightarrow> 3
           | Some d \<Rightarrow> if d \<le> 23 then 3 else 4))
   \<and> (\<not> list_all IsValid (SmallVec_required vec) \<longrightarrow>
      SmallVec_num_children (SmallVec_update vec) = 0
      \<and> \<not> SmallVec_has_children (SmallVec_update vec)
      \<and> (\<forall>i. SmallVec_get_child_at_index h (SmallVec_update vec) i = None)
      \<and> SmallVecSummaryProvider vec =
          (case SmallVec_raw_length vec of
             None \<Rightarrow> ''size=?''
           | Some r \<Rightarrow> ''size='' @ format_d (int (drop_bit 1 r))))"
proof (intro conjI impI)
  assume m: "\<not> list_all IsValid (SmolStr_required valobj)"
  show "SmolStrSummaryProvider h valobj = dquote @ dquote"
    by (rule SmolStr_missing(1) [OF m])
  show "fst (SmolStr_update h valobj) = []"
    by (simp add: SmolStr_missing(2) [OF m])
  show "content (snd (SmolStr_update h valobj)) = []"
    by (simp add: SmolStr_missing(2) [OF m] SmolStr_init_def)
  show "SmolStr_has_children (snd (SmolStr_update h valobj))"
    by (simp add: SmolStr_has_children_def)
  show "SmolStr_num_children (snd (SmolStr_update h valobj)) =
      (case SmolStr_discriminant valobj of
         None \<Rightarrow> 3
       | Some d \<Rightarrow> if d \<le> 23 then 3 else 4)"
    by (simp add: SmolStr_missing(2) [OF m] SmolStr_num_children_def split: option.splits)
next
  assume m: "\<not> list_all IsValid (SmallVec_required vec)"
  show "SmallVec_num_children (SmallVec_update vec) = 0"
    by (simp add: SmallVec_num_children_def SmallVec_missing [OF m])
  show "\<not> SmallVec_has_children (SmallVec_update vec)"
    by (simp add: SmallVec_has_children_def SmallVec_missing [OF m])
  show "\<forall>i. SmallVec_get_child_at_index h (SmallVec_update vec) i = None"
    using SmallVec_missing [OF m]
    by (auto simp add: SmallVec_get_child_at_index_def)
  show "SmallVecSummaryProvider vec =
      (case SmallVec_raw_length vec of
         None \<Rightarrow> ''size=?''
       | Some r \<Rightarrow> ''size='' @ format_d (int (drop_bit 1 r)))"
    by (rule SmallVecSummaryProvider_eq)
qed

theorem Missing_field_degrades_witness:
  "\<not> list_all IsValid (SmolStr_required ex_heap_unreadable)
   \<and> SmolStrSummaryProvider ex_host ex_heap_unreadable = dquote @ dquote
   \<and> fst (SmolStr_update ex_host ex_heap_unreadable) = []
   \<and> SmolStr_num_children (snd (SmolStr_update ex_host ex_heap_unreadable)) = 4
   \<and> \<not> list_all IsValid (SmallVec_required (ex_vec_no_raw 6 (DebugType True 4)))
   \<and> SmallVec_num_children (SmallVec_update (ex_vec_no_raw 6 (DebugType True 4))) = 0
   \<and> SmallVec_get_child_at_index ex_host (SmallVec_update (ex_vec_no_raw 6 (DebugType True 4))) 0
       = None
   \<and> SmallVecSummaryProvider (ex_vec_no_raw 6 (DebugType True 4)) = ''size=3''"
  using Missing_field_degrades [of ex_heap_unreadable ex_host "ex_vec_no_raw 6 (DebugType True 4)"]
  by (simp add: ex_required ex_discriminant ex_raw_length drop_bit_examples format_simps)

text \<open>
  The claim as the specification states it, that a value with a missing field exposes
  no synthetic children and that the unreadable vector prints as \<^verbatim>\<open>size=0\<close>, fails for
  a value with no fields at all: as a string it has three children, and as a vector its
  summary is \<^verbatim>\<open>size=?\<close>. It fails as well for a vector of raw length 6 with no
  \<^verbatim>\<open>raw\<close> field, whose summary is \<^verbatim>\<open>size=3\<close>.
\<close>

theorem Missing_field_degrades_counterexample:
  "\<not> list_all IsValid (SmolStr_required invalid_SBValue)
   \<and> SmolStr_num_children (snd (SmolStr_update ex_host invalid_SBValue)) = 3
   \<and> SmolStr_num_children (snd (SmolStr_update ex_host invalid_SBValue)) \<noteq> 0
   \<and> \<not> list_all IsValid (SmallVec_required invalid_SBValue)
   \<and> SmallVecSummaryProvider invalid_SBValue = ''size=?''
   \<and> SmallVecSummaryProvider invalid_SBValue \<noteq> ''size=0''
   \<and> \<not> list_all IsValid (SmallVec_required (ex_vec_no_raw 6 (DebugType True 4)))
   \<and> SmallVecSummaryProvider (ex_vec_no_raw 6 (DebugType True 4)) = ''size=3''
   \<and> SmallVecSummaryProvider (ex_vec_no_raw 6 (DebugType True 4)) \<noteq> ''size=0''"
  by (simp add: ex_required SmolStr_update_no_discriminant ex_discriminant
      SmolStr_num_children_def SmolStr_init_def SmallVecSummaryProvider_eq ex_raw_length
      drop_bit_examples format_simps)

end
